theory Spec2Isabelle
  imports Main "HOL-Library.Sublist"
begin

section \<open>The parsed document\<close>

text \<open>
  \<^verbatim>\<open>scraper_api.py\<close> works on the tree that \<^verbatim>\<open>BeautifulSoup(html, "html.parser")\<close>
  returns. A tag has a name, a dictionary of attributes and a list of children; the
  value of the \<^verbatim>\<open>class\<close> attribute is a list of tokens, every other value a
  string. Text is a \<^verbatim>\<open>NavigableString\<close>; the strings that \<^verbatim>\<open>get_text\<close> leaves
  out (comments, declarations) are \<open>Comment\<close>. Characters stand for code points
  below 256.
\<close>

datatype attr_value = AttrStr string | AttrList "string list"

datatype node =
    Tag (tag_name: string) (tag_attrs: "(string \<times> attr_value) list") (tag_contents: "node list")
  | NavigableString string
  | Comment string

datatype error = AttributeError | RetryError | NotImplementedError | OtherError

fun descendants :: "node \<Rightarrow> node list" where
  "descendants (Tag nm ats cs) = concat (map (\<lambda>c. c # descendants c) cs)"
| "descendants (NavigableString s) = []"
| "descendants (Comment s) = []"

definition find_all :: "(node \<Rightarrow> bool) \<Rightarrow> node \<Rightarrow> node list" where
  "find_all p n = filter p (descendants n)"

text \<open>\<^verbatim>\<open>find\<close> is \<^verbatim>\<open>find_all\<close> with \<^verbatim>\<open>limit=1\<close>: the first match in document order, or None.\<close>

definition find_first :: "(node \<Rightarrow> bool) \<Rightarrow> node \<Rightarrow> node option" where
  "find_first p n = (case find_all p n of [] \<Rightarrow> None | x # _ \<Rightarrow> Some x)"

fun get_attr :: "node \<Rightarrow> string \<Rightarrow> attr_value option" where
  "get_attr (Tag nm ats cs) k = map_of ats k"
| "get_attr (NavigableString s) k = None"
| "get_attr (Comment s) k = None"

fun is_tag :: "string \<Rightarrow> node \<Rightarrow> bool" where
  "is_tag t (Tag nm ats cs) = (nm = t)"
| "is_tag t (NavigableString s) = False"
| "is_tag t (Comment s) = False"

text \<open>\<^verbatim>\<open>' '.join(tokens)\<close>\<close>

fun join_space :: "string list \<Rightarrow> string" where
  "join_space [] = []"
| "join_space [t] = t"
| "join_space (t # ts) = t @ '' '' @ join_space ts"

text \<open>
  Matching an attribute value against a non-empty search string: a missing attribute
  never matches; a token list matches when one token is the string, or when the tokens
  joined by single spaces are the string; a plain value matches when it is the string.
\<close>

fun matches_str :: "string \<Rightarrow> attr_value option \<Rightarrow> bool" where
  "matches_str s None = False"
| "matches_str s (Some (AttrStr v)) = (v = s)"
| "matches_str s (Some (AttrList ts)) = ((\<exists>t \<in> set ts. t = s) \<or> join_space ts = s)"

text \<open>\<^verbatim>\<open>lambda x: x and 'product' in x\<close>, applied to each token and to the joined tokens.\<close>

definition product_in :: "string \<Rightarrow> bool" where
  "product_in x = (x \<noteq> [] \<and> sublist ''product'' x)"

fun matches_product :: "attr_value option \<Rightarrow> bool" where
  "matches_product None = False"
| "matches_product (Some (AttrStr v)) = product_in v"
| "matches_product (Some (AttrList ts)) = ((\<exists>t \<in> set ts. product_in t) \<or> product_in (join_space ts))"

definition div_id :: "string \<Rightarrow> node \<Rightarrow> bool" where
  "div_id i n = (is_tag ''div'' n \<and> matches_str i (get_attr n ''id''))"

definition tag_class :: "string \<Rightarrow> string \<Rightarrow> node \<Rightarrow> bool" where
  "tag_class t c n = (is_tag t n \<and> matches_str c (get_attr n ''class''))"

definition li_product :: "node \<Rightarrow> bool" where
  "li_product n = (is_tag ''li'' n \<and> matches_product (get_attr n ''class''))"

text \<open>\<^verbatim>\<open>str.strip()\<close>: the characters for which \<^verbatim>\<open>str.isspace\<close> holds, below 256.\<close>

definition isspace :: "char \<Rightarrow> bool" where
  "isspace c = (of_char c \<in> {9, 10, 11, 12, 13, 28, 29, 30, 31, 32, 133, 160 :: nat})"

definition strip :: "string \<Rightarrow> string" where
  "strip s = rev (dropWhile isspace (rev (dropWhile isspace s)))"

fun stripped_string :: "node \<Rightarrow> string list" where
  "stripped_string (NavigableString s) = (if strip s = [] then [] else [strip s])"
| "stripped_string (Tag nm ats cs) = []"
| "stripped_string (Comment s) = []"

text \<open>\<^verbatim>\<open>get_text(strip=True)\<close>: the stripped, non-empty strings below the node, joined by \<^verbatim>\<open>""\<close>.\<close>

definition get_text_strip :: "node \<Rightarrow> string" where
  "get_text_strip n = concat (concat (map stripped_string (descendants n)))"

section \<open>The Product Extractor: \<^verbatim>\<open>Scraper.parse_page\<close>\<close>

record product =
  product_title :: string
  product_price :: string
  path_to_image :: "attr_value option"

text \<open>
  \<^verbatim>\<open>x.find(...)\<close> where \<^verbatim>\<open>x\<close> may be None: Python raises AttributeError
  (\<^verbatim>\<open>'NoneType' object has no attribute 'find'\<close>) when it is.
\<close>

definition find_in :: "(node \<Rightarrow> bool) \<Rightarrow> node option \<Rightarrow> error + node option" where
  "find_in p x = (case x of None \<Rightarrow> Inl AttributeError | Some n \<Rightarrow> Inr (find_first p n))"

definition get_text_of :: "node option \<Rightarrow> error + string" where
  "get_text_of x = (case x of None \<Rightarrow> Inl AttributeError | Some n \<Rightarrow> Inr (get_text_strip n))"

text \<open>Line 97: the chain \<^verbatim>\<open>.find("div", class_="mf-product-content").find("h2").find("a").get_text(strip=True)\<close>.\<close>

definition title_of :: "node \<Rightarrow> error + string" where
  "title_of details =
     (case find_in (is_tag ''h2'') (find_first (tag_class ''div'' ''mf-product-content'') details) of
        Inl e \<Rightarrow> Inl e
      | Inr h2 \<Rightarrow>
          (case find_in (is_tag ''a'') h2 of
             Inl e \<Rightarrow> Inl e
           | Inr a \<Rightarrow> get_text_of a))"

text \<open>Lines 100 to 106: the price box, the sale price, the regular price, \<^verbatim>\<open>"N/A"\<close>.\<close>

definition price_of :: "node \<Rightarrow> error + string" where
  "price_of details =
     (let price_box = find_first (tag_class ''div'' ''mf-product-price-box'') details in
      case find_in (is_tag ''ins'') price_box of
        Inl e \<Rightarrow> Inl e
      | Inr ins_tag \<Rightarrow>
          (case ins_tag of
             Some i \<Rightarrow> Inr (get_text_strip i)
           | None \<Rightarrow>
               (case find_in (tag_class ''span'' ''woocommerce-Price-amount amount'') price_box of
                  Inl e \<Rightarrow> Inl e
                | Inr bdi_tag \<Rightarrow>
                    Inr (case bdi_tag of Some b \<Rightarrow> get_text_strip b | None \<Rightarrow> ''N/A''))))"

text \<open>Lines 109 and 110: the thumbnail chain and the lazy-load attribute.\<close>

definition image_of :: "node \<Rightarrow> error + attr_value option" where
  "image_of product_inner =
     (case find_in (is_tag ''a'') (find_first (tag_class ''div'' ''mf-product-thumbnail'') product_inner) of
        Inl e \<Rightarrow> Inl e
      | Inr a \<Rightarrow>
          (case find_in (is_tag ''img'') a of
             Inl e \<Rightarrow> Inl e
           | Inr img_tag \<Rightarrow>
               Inr (case img_tag of
                      None \<Rightarrow> None
                    | Some img \<Rightarrow> get_attr img ''data-lazy-src'')))"

text \<open>
  Lines 95 to 107: the title and the price are filled in only below a
  \<^verbatim>\<open>mf-product-details\<close> div.
\<close>

definition fill_details :: "node \<Rightarrow> product \<Rightarrow> error + product" where
  "fill_details product_inner product_item =
     (case find_first (tag_class ''div'' ''mf-product-details'') product_inner of
        None \<Rightarrow> Inr product_item
      | Some details \<Rightarrow>
          (case title_of details of
             Inl e \<Rightarrow> Inl e
           | Inr product_inner_name \<Rightarrow>
               (case price_of details of
                  Inl e \<Rightarrow> Inl e
                | Inr price \<Rightarrow>
                    Inr (product_item\<lparr>product_title := product_inner_name,
                                       product_price := price\<rparr>))))"

text \<open>
  Lines 90 to 112, the body of the inner loop for one \<^verbatim>\<open>li\<close>: \<open>Inr None\<close> when
  nothing is appended (no \<^verbatim>\<open>product-inner clearfix\<close> div), \<open>Inr (Some item)\<close> when
  \<open>item\<close> is appended, \<open>Inl e\<close> when the body raises.
\<close>

definition parse_product :: "node \<Rightarrow> error + product option" where
  "parse_product li =
     (let product_item =
        \<lparr>product_title = [], product_price = [], path_to_image = Some (AttrStr [])\<rparr> in
      case find_first (tag_class ''div'' ''product-inner clearfix'') li of
        None \<Rightarrow> Inr None
      | Some product_inner \<Rightarrow>
          (case fill_details product_inner product_item of
             Inl e \<Rightarrow> Inl e
           | Inr item \<Rightarrow>
               (case image_of product_inner of
                  Inl e \<Rightarrow> Inl e
                | Inr img_src \<Rightarrow> Inr (Some (item\<lparr>path_to_image := img_src\<rparr>)))))"

text \<open>The inner loop over the \<^verbatim>\<open>li\<close> items of one \<^verbatim>\<open>ul\<close>; an exception leaves the loop.\<close>

fun parse_items :: "node list \<Rightarrow> product list \<Rightarrow> error + product list" where
  "parse_items [] products = Inr products"
| "parse_items (p # ps) products =
     (case parse_product p of
        Inl e \<Rightarrow> Inl e
      | Inr None \<Rightarrow> parse_items ps products
      | Inr (Some item) \<Rightarrow> parse_items ps (products @ [item]))"

text \<open>The outer loop over \<^verbatim>\<open>shop_content.find_all("ul")\<close>.\<close>

fun parse_uls :: "node list \<Rightarrow> product list \<Rightarrow> error + product list" where
  "parse_uls [] products = Inr products"
| "parse_uls (ul # uls) products =
     (case parse_items (find_all li_product ul) products of
        Inl e \<Rightarrow> Inl e
      | Inr products' \<Rightarrow> parse_uls uls products')"

text \<open>Lines 84 to 113, on the parsed document.\<close>

definition parse_soup :: "node \<Rightarrow> error + product list" where
  "parse_soup soup =
     (case find_first (div_id ''mf-shop-content'') soup of
        None \<Rightarrow> Inr []
      | Some shop_content \<Rightarrow> parse_uls (find_all (is_tag ''ul'') shop_content) [])"

text \<open>
  Line 83 builds the document with the markup parser of the library, which is taken as
  the parameter \<open>bs\<close>.
\<close>

definition parse_page :: "(string \<Rightarrow> node) \<Rightarrow> string \<Rightarrow> error + product list" where
  "parse_page bs html = parse_soup (bs html)"

section \<open>The Page Fetcher: \<^verbatim>\<open>Scraper.scrape_page\<close>\<close>

text \<open>
  What \<^verbatim>\<open>session.get\<close> followed by \<^verbatim>\<open>raise_for_status\<close> can do: return a response
  (status and text), raise a \<^verbatim>\<open>requests.RequestException\<close> (connection error,
  timeout), or raise an exception of another class. The network is a function of the
  URL, the proxy dictionary and the number of the attempt for that URL.
\<close>

datatype outcome = Response nat string | RequestException | OtherException

type_synonym proxies = "(string \<times> string) list option"

type_synonym network = "string \<Rightarrow> proxies \<Rightarrow> nat \<Rightarrow> outcome"

text \<open>
  What the scraper does to the outside, in order: a GET, a \<^verbatim>\<open>time.sleep\<close> of the
  retry decorator, a line \<^verbatim>\<open>Error fetching <url>: ...\<close> printed.
\<close>

datatype event = Get string proxies | Sleep nat | PrintError string

record scraper =
  base_url :: string
  page_limit :: int
  proxies :: proxies

definition Scraper :: "int \<Rightarrow> string option \<Rightarrow> scraper" where
  "Scraper limit proxy =
     \<lparr>base_url = ''https://dentalstall.com/shop/page/'',
      page_limit = limit,
      proxies = (case proxy of
                   None \<Rightarrow> None
                 | Some p \<Rightarrow> if p = [] then None else Some [(''http'', p), (''https'', p)])\<rparr>"

definition digit :: "nat \<Rightarrow> char" where
  "digit d = char_of (48 + d)"

fun str_nat :: "nat \<Rightarrow> string" where
  "str_nat n = (if n < 10 then [digit n] else str_nat (n div 10) @ [digit (n mod 10)])"

declare str_nat.simps [simp del]

definition str_int :: "int \<Rightarrow> string" where
  "str_int i = (if i < 0 then CHR ''-'' # str_nat (nat (- i)) else str_nat (nat i))"

definition page_url :: "scraper \<Rightarrow> int \<Rightarrow> string" where
  "page_url self page_number = base_url self @ str_int page_number @ ''/''"

text \<open>
  Lines 73 to 80, one call of the undecorated function: \<^verbatim>\<open>raise_for_status\<close> raises
  \<^verbatim>\<open>HTTPError\<close>, a \<^verbatim>\<open>RequestException\<close>, for a status from 400 to 599; the
  \<^verbatim>\<open>except\<close> clause prints and returns None.
\<close>

definition fetch_once ::
  "network \<Rightarrow> scraper \<Rightarrow> int \<Rightarrow> nat \<Rightarrow> event list \<Rightarrow> (error + string option) \<times> event list" where
  "fetch_once net self page_number attempt tr =
     (let url = page_url self page_number;
          tr' = tr @ [Get url (proxies self)] in
      case net url (proxies self) attempt of
        Response status text \<Rightarrow>
          if 400 \<le> status \<and> status < 600 then (Inr None, tr' @ [PrintError url])
          else (Inr (Some text), tr')
      | RequestException \<Rightarrow> (Inr None, tr' @ [PrintError url])
      | OtherException \<Rightarrow> (Inl OtherError, tr'))"

text \<open>
  The decorator \<^verbatim>\<open>@retry(stop=stop_after_attempt(n), wait=wait_fixed(d))\<close>: the call
  is repeated only when it raises; a returned value, None included, is passed on.
  After the \<open>n\<close>-th raising attempt the decorator raises \<^verbatim>\<open>RetryError\<close>.
\<close>

function retry ::
  "nat \<Rightarrow> nat \<Rightarrow> (nat \<Rightarrow> event list \<Rightarrow> (error + 'a) \<times> event list) \<Rightarrow> nat \<Rightarrow> event list
     \<Rightarrow> (error + 'a) \<times> event list" where
  "retry stop_after wait_fixed f attempt tr =
     (case f attempt tr of
        (Inr v, tr') \<Rightarrow> (Inr v, tr')
      | (Inl e, tr') \<Rightarrow>
          if stop_after \<le> attempt then (Inl RetryError, tr')
          else retry stop_after wait_fixed f (Suc attempt) (tr' @ [Sleep wait_fixed]))"
  by pat_completeness auto
termination
  by (relation "measure (\<lambda>(stop_after, wait_fixed, f, attempt, tr). stop_after - attempt)") auto

declare retry.simps [simp del]

definition scrape_page ::
  "network \<Rightarrow> scraper \<Rightarrow> int \<Rightarrow> event list \<Rightarrow> (error + string option) \<times> event list" where
  "scrape_page net self page_number tr = retry 3 5 (fetch_once net self page_number) 1 tr"

section \<open>The Pagination Driver: \<^verbatim>\<open>Scraper.scrape\<close>\<close>

text \<open>
  The loop of lines 117 to 120 over the remaining pages. \<^verbatim>\<open>if html:\<close> is false for
  None and for the empty string.
\<close>

fun scrape_pages ::
  "network \<Rightarrow> (string \<Rightarrow> node) \<Rightarrow> scraper \<Rightarrow> int list \<Rightarrow> product list \<Rightarrow> event list
     \<Rightarrow> (error + product list) \<times> event list" where
  "scrape_pages net bs self [] all_products tr = (Inr all_products, tr)"
| "scrape_pages net bs self (page # pages) all_products tr =
     (case scrape_page net self page tr of
        (Inl e, tr') \<Rightarrow> (Inl e, tr')
      | (Inr html, tr') \<Rightarrow>
          (case html of
             None \<Rightarrow> scrape_pages net bs self pages all_products tr'
           | Some text \<Rightarrow>
               if text = [] then scrape_pages net bs self pages all_products tr'
               else (case parse_page bs text of
                       Inl e \<Rightarrow> (Inl e, tr')
                     | Inr products \<Rightarrow>
                         scrape_pages net bs self pages (all_products @ products) tr')))"

definition scrape ::
  "network \<Rightarrow> (string \<Rightarrow> node) \<Rightarrow> scraper \<Rightarrow> event list \<Rightarrow> (error + product list) \<times> event list" where
  "scrape net bs self tr = scrape_pages net bs self [1..page_limit self] [] tr"

section \<open>The Scrape Orchestrator: \<^verbatim>\<open>ScrapingController.scrape_and_store\<close>\<close>

text \<open>
  The two collaborators are objects with methods; each is a record of its methods over
  the state it keeps. A method that raises returns \<open>Inl\<close>.
\<close>

record 's StorageStrategy =
  save :: "product list \<Rightarrow> 's \<Rightarrow> error + 's"
  load :: "'s \<Rightarrow> error + product list"

record 'm NotificationStrategy =
  send :: "string \<Rightarrow> 'm \<Rightarrow> error + 'm"

text \<open>The base classes raise \<^verbatim>\<open>NotImplementedError\<close>.\<close>

definition StorageStrategy :: "'s StorageStrategy" where
  "StorageStrategy = \<lparr>save = (\<lambda>data s. Inl NotImplementedError), load = (\<lambda>s. Inl NotImplementedError)\<rparr>"

definition NotificationStrategy :: "'m NotificationStrategy" where
  "NotificationStrategy = \<lparr>send = (\<lambda>message m. Inl NotImplementedError)\<rparr>"

text \<open>\<^verbatim>\<open>InMemoryStorage\<close>: the state is \<^verbatim>\<open>self.data\<close>.\<close>

definition InMemoryStorage :: "(product list) StorageStrategy" where
  "InMemoryStorage = \<lparr>save = (\<lambda>data s. Inr data), load = (\<lambda>s. Inr s)\<rparr>"

text \<open>
  \<^verbatim>\<open>JSONStorage\<close>: the state is the list held by \<^verbatim>\<open>scraped_data.json\<close>, None while
  the file does not exist.
\<close>

definition JSONStorage :: "(product list option) StorageStrategy" where
  "JSONStorage =
     \<lparr>save = (\<lambda>data s. Inr (Some data)),
      load = (\<lambda>s. case s of Some data \<Rightarrow> Inr data | None \<Rightarrow> Inr [])\<rparr>"

text \<open>\<^verbatim>\<open>ConsoleNotification\<close>: the state is the list of lines printed.\<close>

definition ConsoleNotification :: "(string list) NotificationStrategy" where
  "ConsoleNotification = \<lparr>send = (\<lambda>message out. Inr (out @ [message]))\<rparr>"

text \<open>
  The world of one run: the Redis database behind \<^verbatim>\<open>redis_client\<close> (keys and
  values are strings, \<^verbatim>\<open>decode_responses=True\<close>), the states of the two
  collaborators, and what the scraper has done so far. The database is a map: it
  answers every \<^verbatim>\<open>get\<close> and takes every \<^verbatim>\<open>set\<close>; a failure of its transport is
  not part of the model.
\<close>

record ('s, 'm) world =
  redis :: "string \<rightharpoonup> string"
  storage_state :: 's
  notification_state :: 'm
  events :: "event list"

definition cache_key :: "product \<Rightarrow> string" where
  "cache_key p = product_title p @ ''_price''"

text \<open>Lines 136 to 142: the loop over the scraped records, on the cache and the counter.\<close>

fun update_cache ::
  "product list \<Rightarrow> (string \<rightharpoonup> string) \<Rightarrow> nat \<Rightarrow> (string \<rightharpoonup> string) \<times> nat" where
  "update_cache [] db updated_count = (db, updated_count)"
| "update_cache (p # ps) db updated_count =
     (let cached_price = db (cache_key p) in
      if cached_price = None \<or> cached_price \<noteq> Some (product_price p)
      then update_cache ps (db(cache_key p \<mapsto> product_price p)) (updated_count + 1)
      else update_cache ps db updated_count)"

definition summary :: "nat \<Rightarrow> nat \<Rightarrow> string" where
  "summary scraped updated =
     ''Scraped '' @ str_nat scraped @ '' products. Updated '' @ str_nat updated @ '' products.''"

definition scrape_and_store ::
  "'s StorageStrategy \<Rightarrow> 'm NotificationStrategy \<Rightarrow> network \<Rightarrow> (string \<Rightarrow> node) \<Rightarrow> int
     \<Rightarrow> string option \<Rightarrow> ('s, 'm) world \<Rightarrow> (error + (string \<times> string) list) \<times> ('s, 'm) world" where
  "scrape_and_store storage notification net bs limit proxy w =
     (let scraper = Scraper limit proxy in
      case scrape net bs scraper (events w) of
        (Inl e, tr) \<Rightarrow> (Inl e, w\<lparr>events := tr\<rparr>)
      | (Inr scraped_data, tr) \<Rightarrow>
          (case load storage (storage_state w) of
             Inl e \<Rightarrow> (Inl e, w\<lparr>events := tr\<rparr>)
           | Inr existing_data \<Rightarrow>
               (case update_cache scraped_data (redis w) 0 of
                  (db, updated_count) \<Rightarrow>
                    (case (if updated_count > 0 then save storage scraped_data (storage_state w)
                           else Inr (storage_state w)) of
                       Inl e \<Rightarrow> (Inl e, w\<lparr>events := tr, redis := db\<rparr>)
                     | Inr st \<Rightarrow>
                         (case send notification (summary (length scraped_data) updated_count)
                                 (notification_state w) of
                            Inl e \<Rightarrow> (Inl e, w\<lparr>events := tr, redis := db, storage_state := st\<rparr>)
                          | Inr ns \<Rightarrow>
                              (Inr [(''message'', summary (length scraped_data) updated_count)],
                               w\<lparr>events := tr, redis := db, storage_state := st,
                                 notification_state := ns\<rparr>))))))"

section \<open>Observations used in the statements\<close>

text \<open>The markup that \<open>scrape_page\<close> hands to the driver for a page, None when it hands none.\<close>

definition fetched :: "network \<Rightarrow> scraper \<Rightarrow> int \<Rightarrow> string option" where
  "fetched net self p = (case fst (scrape_page net self p []) of Inr html \<Rightarrow> html | Inl e \<Rightarrow> None)"

text \<open>The records extracted from a markup text, none when the extraction raises.\<close>

definition extracted :: "(string \<Rightarrow> node) \<Rightarrow> string \<Rightarrow> product list" where
  "extracted bs html = (case parse_page bs html of Inr products \<Rightarrow> products | Inl e \<Rightarrow> [])"

definition page_products :: "network \<Rightarrow> (string \<Rightarrow> node) \<Rightarrow> scraper \<Rightarrow> int \<Rightarrow> product list" where
  "page_products net bs self p =
     (case fetched net self p of None \<Rightarrow> [] | Some html \<Rightarrow> extracted bs html)"

text \<open>The URLs of the GETs of a trace, in order.\<close>

fun requested :: "event list \<Rightarrow> string list" where
  "requested [] = []"
| "requested (Get url px # es) = url # requested es"
| "requested (Sleep d # es) = requested es"
| "requested (PrintError url # es) = requested es"

section \<open>Example inputs\<close>

definition thumb_link :: "string \<Rightarrow> node" where
  "thumb_link src =
     Tag ''a'' [(''href'', AttrStr ''/product'')] [Tag ''img'' [(''data-lazy-src'', AttrStr src)] []]"

definition thumbnail :: "string \<Rightarrow> node" where
  "thumbnail src = Tag ''div'' [(''class'', AttrList [''mf-product-thumbnail''])] [thumb_link src]"

definition amount :: "string \<Rightarrow> node" where
  "amount s =
     Tag ''span'' [(''class'', AttrList [''woocommerce-Price-amount'', ''amount''])]
       [Tag ''bdi'' [] [NavigableString s]]"

definition content :: "string \<Rightarrow> node" where
  "content title =
     Tag ''div'' [(''class'', AttrList [''mf-product-content''])]
       [Tag ''h2'' [] [Tag ''a'' [(''href'', AttrStr ''/product'')] [NavigableString title]]]"

text \<open>A price box with a regular price and, after it, a sale price.\<close>

definition sale_box :: node where
  "sale_box =
     Tag ''div'' [(''class'', AttrList [''mf-product-price-box''])]
       [Tag ''span'' [(''class'', AttrList [''price''])]
          [Tag ''del'' [] [amount ''$12.99''], Tag ''ins'' [] [amount ''$9.99'']]]"

definition widget_details :: node where
  "widget_details =
     Tag ''div'' [(''class'', AttrList [''mf-product-details''])] [content '' Widget A '', sale_box]"

definition widget_inner :: node where
  "widget_inner =
     Tag ''div'' [(''class'', AttrList [''product-inner'', ''clearfix''])]
       [thumbnail ''a.jpg'', widget_details]"

definition widget_li :: node where
  "widget_li = Tag ''li'' [(''class'', AttrList [''product'', ''type-product''])] [widget_inner]"

definition widget :: product where
  "widget =
     \<lparr>product_title = ''Widget A'', product_price = ''$9.99'',
      path_to_image = Some (AttrStr ''a.jpg'')\<rparr>"

text \<open>An item with a thumbnail and a price box, and no \<^verbatim>\<open>mf-product-content\<close> div.\<close>

definition no_content_li :: node where
  "no_content_li =
     Tag ''li'' [(''class'', AttrList [''product''])]
       [Tag ''div'' [(''class'', AttrList [''product-inner'', ''clearfix''])]
          [thumbnail ''b.jpg'',
           Tag ''div'' [(''class'', AttrList [''mf-product-details''])]
             [Tag ''div'' [(''class'', AttrList [''mf-product-price-box''])] [amount ''$5.00'']]]]"

text \<open>A well-formed item but for the thumbnail div, which it lacks.\<close>

definition no_thumbnail_li :: node where
  "no_thumbnail_li =
     Tag ''li'' [(''class'', AttrList [''product''])]
       [Tag ''div'' [(''class'', AttrList [''product-inner'', ''clearfix''])]
          [Tag ''div'' [(''class'', AttrList [''mf-product-details''])]
             [content ''Widget B'',
              Tag ''div'' [(''class'', AttrList [''mf-product-price-box''])] [amount ''$7.00'']]]]"

text \<open>An item whose inner wrapper holds a thumbnail only, and one whose wrapper is empty.\<close>

definition untitled_inner :: node where
  "untitled_inner =
     Tag ''div'' [(''class'', AttrList [''product-inner'', ''clearfix''])] [thumbnail ''c.jpg'']"

definition untitled_li :: node where
  "untitled_li = Tag ''li'' [(''class'', AttrList [''product''])] [untitled_inner]"

definition bare_inner :: node where
  "bare_inner = Tag ''div'' [(''class'', AttrList [''product-inner'', ''clearfix''])] []"

definition bare_li :: node where
  "bare_li = Tag ''li'' [(''class'', AttrList [''product''])] [bare_inner]"

definition shop_page :: "node list \<Rightarrow> node" where
  "shop_page items =
     Tag ''[document]'' []
       [Tag ''html'' []
          [Tag ''body'' []
             [Tag ''div'' [(''id'', AttrStr ''mf-shop-content'')]
                [Tag ''ul'' [(''class'', AttrList [''products''])] items]]]]"

definition plain_page :: node where
  "plain_page =
     Tag ''[document]'' []
       [Tag ''html'' [] [Tag ''body'' [] [Tag ''div'' [(''id'', AttrStr ''content'')]
          [NavigableString ''No products'']]]]"

text \<open>A parser that knows two documents: the empty one, and a shop page with one item.\<close>

definition soup_of :: "string \<Rightarrow> node" where
  "soup_of html = (if html = [] then Tag ''[document]'' [] [] else shop_page [widget_li])"

text \<open>A network on which the first GET of a URL fails and the second would succeed.\<close>

definition flaky :: network where
  "flaky url px attempt = (if attempt = 1 then RequestException else Response 200 ''<html></html>'')"

text \<open>A network on which every GET raises an exception that is not a \<^verbatim>\<open>RequestException\<close>.\<close>

definition broken :: network where
  "broken url px attempt = OtherException"

text \<open>A network on which page 1 answers and every other page fails.\<close>

definition first_page_only :: network where
  "first_page_only url px attempt =
     (if url = ''https://dentalstall.com/shop/page/1/'' then Response 200 ''<html></html>''
      else RequestException)"

definition world0 :: "(product list, string list) world" where
  "world0 = \<lparr>redis = Map.empty, storage_state = [], notification_state = [], events = []\<rparr>"

text \<open>A well-formed item, from its title, the children of its price box and its image.\<close>

definition price_box_of :: "node list \<Rightarrow> node" where
  "price_box_of prices = Tag ''div'' [(''class'', AttrList [''mf-product-price-box''])] prices"

definition details_of :: "string \<Rightarrow> node list \<Rightarrow> node" where
  "details_of title prices =
     Tag ''div'' [(''class'', AttrList [''mf-product-details''])]
       [content title, price_box_of prices]"

definition inner_of :: "string \<Rightarrow> node list \<Rightarrow> string \<Rightarrow> node" where
  "inner_of title prices src =
     Tag ''div'' [(''class'', AttrList [''product-inner'', ''clearfix''])]
       [thumbnail src, details_of title prices]"

definition item_li :: "string \<Rightarrow> node list \<Rightarrow> string \<Rightarrow> node" where
  "item_li title prices src =
     Tag ''li'' [(''class'', AttrList [''product''])] [inner_of title prices src]"

definition product_record :: "string \<Rightarrow> string \<Rightarrow> string \<Rightarrow> product" where
  "product_record title price src =
     \<lparr>product_title = title, product_price = price, path_to_image = Some (AttrStr src)\<rparr>"

text \<open>
  A shop page whose list holds the item A, then a list with the item B nested in a
  plain \<^verbatim>\<open>li\<close>, then the item C.
\<close>

definition nested_page :: node where
  "nested_page =
     shop_page
       [item_li ''A'' [amount ''$1''] ''a.jpg'',
        Tag ''li'' [(''class'', AttrList [''group''])]
          [Tag ''ul'' [] [item_li ''B'' [amount ''$2''] ''b.jpg'']],
        item_li ''C'' [amount ''$3''] ''c.jpg'']"

text \<open>
  A network on which every page answers, with its own URL as text, and a parser for it
  by which page 2 is a shop page with a well-formed item and an item without
  \<^verbatim>\<open>mf-product-content\<close>, and every other page a shop page with one well-formed item.
\<close>

definition answering :: network where
  "answering url px attempt = Response 200 url"

definition malformed_second :: "string \<Rightarrow> node" where
  "malformed_second html =
     (if html = ''https://dentalstall.com/shop/page/2/'' then shop_page [widget_li, no_content_li]
      else shop_page [widget_li])"

text \<open>
  A network on which page 1 answers and every GET of another page raises an exception
  that is not a \<^verbatim>\<open>RequestException\<close>.
\<close>

definition second_page_raises :: network where
  "second_page_raises url px attempt =
     (if url = ''https://dentalstall.com/shop/page/1/'' then Response 200 ''<html></html>''
      else OtherException)"

text \<open>A world whose cache already holds the price of the widget.\<close>

definition world1 :: "(product list, string list) world" where
  "world1 =
     \<lparr>redis = [''Widget A_price'' \<mapsto> ''$9.99''], storage_state = [],
      notification_state = [], events = []\<rparr>"

lemmas item_defs = price_box_of_def details_of_def inner_of_def item_li_def product_record_def
  nested_page_def

lemmas example_defs = thumb_link_def thumbnail_def amount_def content_def sale_box_def
  widget_details_def widget_inner_def widget_li_def widget_def no_content_li_def
  no_thumbnail_li_def
  untitled_inner_def untitled_li_def bare_inner_def bare_li_def shop_page_def plain_page_def

lemmas document_defs = find_first_def find_all_def tag_class_def div_id_def li_product_def
  product_in_def get_text_strip_def strip_def isspace_def

lemmas extractor_defs = parse_page_def parse_soup_def parse_product_def fill_details_def
  title_of_def price_of_def image_of_def find_in_def get_text_of_def

section \<open>The extractor: container, price, missing nodes\<close>

text \<open>
  Claim C7. When the document has no \<^verbatim>\<open>div\<close> with id \<^verbatim>\<open>mf-shop-content\<close>,
  \<open>parse_page\<close> returns the empty list of records, and returns it normally (\<open>Inr\<close>,
  no exception).
\<close>

theorem parse_page_without_container:
  assumes "find_first (div_id ''mf-shop-content'') (bs html) = None"
  shows "parse_page bs html = Inr []"
  using assms by (simp add: parse_page_def parse_soup_def)

theorem parse_page_without_container_witness:
  "find_first (div_id ''mf-shop-content'') ((\<lambda>html. plain_page) ''<html>...</html>'') = None
   \<and> parse_page (\<lambda>html. plain_page) ''<html>...</html>'' = Inr []"
proof -
  have h: "find_first (div_id ''mf-shop-content'') ((\<lambda>html. plain_page) ''<html>...</html>'') = None"
    by (simp add: plain_page_def document_defs)
  from h parse_page_without_container [OF h] show ?thesis by (rule conjI)
qed

text \<open>
  Claim C4. For an item whose details region holds a price box, the price extracted at
  lines 100 to 106 is the text of the first \<^verbatim>\<open>ins\<close> node of the box when there is
  one; otherwise the text of the first \<^verbatim>\<open>span\<close> of class
  \<^verbatim>\<open>woocommerce-Price-amount amount\<close> of the box when there is one; otherwise
  \<^verbatim>\<open>"N/A"\<close>; the extraction of the price does not raise. The item gives a record
  with that price, unless the title chain of line 97 or the thumbnail chain of line 109
  raises.
\<close>

theorem price_prefers_sale:
  assumes "find_first (tag_class ''div'' ''product-inner clearfix'') li = Some inner"
      and "find_first (tag_class ''div'' ''mf-product-details'') inner = Some details"
      and "find_first (tag_class ''div'' ''mf-product-price-box'') details = Some price_box"
  shows "(let price =
            (case find_first (is_tag ''ins'') price_box of
               Some ins_tag \<Rightarrow> get_text_strip ins_tag
             | None \<Rightarrow>
                 (case find_first (tag_class ''span'' ''woocommerce-Price-amount amount'') price_box of
                    Some bdi_tag \<Rightarrow> get_text_strip bdi_tag
                  | None \<Rightarrow> ''N/A''))
          in price_of details = Inr price
           \<and> parse_product li =
               (case title_of details of
                  Inl e \<Rightarrow> Inl e
                | Inr title \<Rightarrow>
                    (case image_of inner of
                       Inl e \<Rightarrow> Inl e
                     | Inr img_src \<Rightarrow>
                         Inr (Some \<lparr>product_title = title, product_price = price,
                                    path_to_image = img_src\<rparr>))))"
proof -
  have p: "price_of details =
             Inr (case find_first (is_tag ''ins'') price_box of
                    Some ins_tag \<Rightarrow> get_text_strip ins_tag
                  | None \<Rightarrow>
                      (case find_first (tag_class ''span'' ''woocommerce-Price-amount amount'') price_box of
                         Some bdi_tag \<Rightarrow> get_text_strip bdi_tag
                       | None \<Rightarrow> ''N/A''))"
    using assms(3) by (simp add: price_of_def find_in_def split: option.splits)
  show ?thesis
    unfolding Let_def
    using assms(1,2) p
    by (simp add: parse_product_def fill_details_def split: sum.splits)
qed

lemma widget_item_nodes:
  "find_first (tag_class ''div'' ''product-inner clearfix'') (item_li ''Widget'' prices ''w.jpg'')
     = Some (inner_of ''Widget'' prices ''w.jpg'')"
  "find_first (tag_class ''div'' ''mf-product-details'') (inner_of ''Widget'' prices ''w.jpg'')
     = Some (details_of ''Widget'' prices)"
  "find_first (tag_class ''div'' ''mf-product-price-box'') (details_of ''Widget'' prices)
     = Some (price_box_of prices)"
  "image_of (inner_of ''Widget'' prices ''w.jpg'') = Inr (Some (AttrStr ''w.jpg''))"
  "title_of (details_of ''Widget'' prices) = Inr ''Widget''"
  by (simp_all add: item_defs example_defs document_defs image_of_def title_of_def find_in_def
        get_text_of_def)

theorem price_prefers_sale_witness:
  "parse_product
     (item_li ''Widget'' [Tag ''del'' [] [amount ''$12.99''], Tag ''ins'' [] [amount ''$9.99'']] ''w.jpg'')
     = Inr (Some (product_record ''Widget'' ''$9.99'' ''w.jpg''))
   \<and> parse_product (item_li ''Widget'' [amount ''$12.99''] ''w.jpg'')
       = Inr (Some (product_record ''Widget'' ''$12.99'' ''w.jpg''))
   \<and> parse_product (item_li ''Widget'' [] ''w.jpg'')
       = Inr (Some (product_record ''Widget'' ''N/A'' ''w.jpg''))
   \<and> price_of (details_of ''Widget'' []) = Inr ''N/A''"
proof -
  note sale_nodes = widget_item_nodes [where prices = "[Tag ''del'' [] [amount ''$12.99''], Tag ''ins'' [] [amount ''$9.99'']]"]
  have sale_price:
    "(case find_first (is_tag ''ins'') (price_box_of [Tag ''del'' [] [amount ''$12.99''], Tag ''ins'' [] [amount ''$9.99'']]) of
         Some ins_tag \<Rightarrow> get_text_strip ins_tag
       | None \<Rightarrow>
           (case find_first (tag_class ''span'' ''woocommerce-Price-amount amount'')
                   (price_box_of [Tag ''del'' [] [amount ''$12.99''], Tag ''ins'' [] [amount ''$9.99'']]) of
              Some bdi_tag \<Rightarrow> get_text_strip bdi_tag
            | None \<Rightarrow> ''N/A'')) = ''$9.99''"
    by (simp add: item_defs example_defs document_defs)
  have sale:
    "price_of (details_of ''Widget'' 
        [Tag ''del'' [] [amount ''$12.99''], Tag ''ins'' [] [amount ''$9.99'']]
       ) = Inr ''$9.99''
     \<and> parse_product (item_li ''Widget'' 
        [Tag ''del'' [] [amount ''$12.99''], Tag ''ins'' [] [amount ''$9.99'']]
        ''w.jpg'')
         = Inr (Some (product_record ''Widget'' ''$9.99'' ''w.jpg''))"
    using price_prefers_sale [OF sale_nodes(1) sale_nodes(2) sale_nodes(3)]
    unfolding Let_def sale_price sale_nodes(4) sale_nodes(5)
    by (simp add: product_record_def)
  note regular_nodes = widget_item_nodes [where prices = "[amount ''$12.99'']"]
  have regular_price:
    "(case find_first (is_tag ''ins'') (price_box_of [amount ''$12.99'']) of
         Some ins_tag \<Rightarrow> get_text_strip ins_tag
       | None \<Rightarrow>
           (case find_first (tag_class ''span'' ''woocommerce-Price-amount amount'')
                   (price_box_of [amount ''$12.99'']) of
              Some bdi_tag \<Rightarrow> get_text_strip bdi_tag
            | None \<Rightarrow> ''N/A'')) = ''$12.99''"
    by (simp add: item_defs example_defs document_defs)
  have regular:
    "price_of (details_of ''Widget'' 
        [amount ''$12.99'']
       ) = Inr ''$12.99''
     \<and> parse_product (item_li ''Widget'' 
        [amount ''$12.99'']
        ''w.jpg'')
         = Inr (Some (product_record ''Widget'' ''$12.99'' ''w.jpg''))"
    using price_prefers_sale [OF regular_nodes(1) regular_nodes(2) regular_nodes(3)]
    unfolding Let_def regular_price regular_nodes(4) regular_nodes(5)
    by (simp add: product_record_def)
  note unpriced_nodes = widget_item_nodes [where prices = "[]"]
  have unpriced_price:
    "(case find_first (is_tag ''ins'') (price_box_of []) of
         Some ins_tag \<Rightarrow> get_text_strip ins_tag
       | None \<Rightarrow>
           (case find_first (tag_class ''span'' ''woocommerce-Price-amount amount'')
                   (price_box_of []) of
              Some bdi_tag \<Rightarrow> get_text_strip bdi_tag
            | None \<Rightarrow> ''N/A'')) = ''N/A''"
    by (simp add: item_defs example_defs document_defs)
  have unpriced:
    "price_of (details_of ''Widget'' []) = Inr ''N/A''
     \<and> parse_product (item_li ''Widget'' [] ''w.jpg'')
         = Inr (Some (product_record ''Widget'' ''N/A'' ''w.jpg''))"
    using price_prefers_sale [OF unpriced_nodes(1) unpriced_nodes(2) unpriced_nodes(3)]
    unfolding Let_def unpriced_price unpriced_nodes(4) unpriced_nodes(5)
    by (simp add: product_record_def)
  from sale regular unpriced show ?thesis by simp
qed

text \<open>
  Claim C2. The claim asks that a missing structural node never aborts the item or
  the page. The code guards some nodes (\<^verbatim>\<open>if product_inner\<close>,
  \<^verbatim>\<open>if product_inner_name_price_div\<close>, \<^verbatim>\<open>if ins_tag\<close>, \<^verbatim>\<open>if bdi_tag\<close>,
  \<^verbatim>\<open>img_tag and ...\<close>) and calls \<^verbatim>\<open>find\<close> on the others unguarded. A page
  with one well-formed item gives one record. With a second item that has no
  \<^verbatim>\<open>mf-product-content\<close> div, or a second item that has no
  \<^verbatim>\<open>mf-product-thumbnail\<close> div, the page gives AttributeError and no record at all.
\<close>

theorem parse_soup_aborts_on_missing_node:
  "parse_soup (shop_page [widget_li]) = Inr [widget]
   \<and> parse_product no_content_li = Inl AttributeError
   \<and> parse_soup (shop_page [widget_li, no_content_li]) = Inl AttributeError
   \<and> parse_product no_thumbnail_li = Inl AttributeError
   \<and> parse_soup (shop_page [widget_li, no_thumbnail_li]) = Inl AttributeError"
  by (simp add: example_defs document_defs extractor_defs)

text \<open>
  Claim C10. The claim asks that an item with the inner wrapper and without the details
  region still gives a record, with the empty string as title and as price, keyed
  \<^verbatim>\<open>"_price"\<close>. The code does so when the wrapper holds a thumbnail div with a link:
  the title and the price keep the defaults of line 90. When the wrapper holds no
  thumbnail div, the unguarded chain of line 109 raises AttributeError: no record is
  appended, and the page is lost with it.
\<close>

theorem parse_product_untitled_needs_thumbnail:
  "find_first (tag_class ''div'' ''product-inner clearfix'') untitled_li = Some untitled_inner
   \<and> find_first (tag_class ''div'' ''mf-product-details'') untitled_inner = None
   \<and> parse_product untitled_li
       = Inr (Some \<lparr>product_title = [], product_price = [], path_to_image = Some (AttrStr ''c.jpg'')\<rparr>)
   \<and> cache_key \<lparr>product_title = [], product_price = [], path_to_image = Some (AttrStr ''c.jpg'')\<rparr>
       = ''_price''
   \<and> find_first (tag_class ''div'' ''product-inner clearfix'') bare_li = Some bare_inner
   \<and> find_first (tag_class ''div'' ''mf-product-details'') bare_inner = None
   \<and> parse_product bare_li = Inl AttributeError
   \<and> parse_soup (shop_page [widget_li, bare_li]) = Inl AttributeError"
  by (simp add: example_defs document_defs extractor_defs cache_key_def)

section \<open>The fetcher and the driver\<close>

lemma retry_returns:
  "f attempt tr = (Inr v, tr') \<Longrightarrow> retry stop_after wait_fixed f attempt tr = (Inr v, tr')"
  by (simp add: retry.simps)

text \<open>
  Unless the first attempt raises an exception that is not a \<^verbatim>\<open>RequestException\<close>,
  \<open>scrape_page\<close> issues one GET and returns: the text, or None after printing.
\<close>

lemma scrape_page_single:
  assumes "net (page_url self p) (proxies self) 1 \<noteq> OtherException"
  shows "scrape_page net self p tr =
           (Inr (fetched net self p),
            tr @ Get (page_url self p) (proxies self)
               # (if fetched net self p = None then [PrintError (page_url self p)] else []))"
proof -
  have "\<exists>v es. (\<forall>tr. fetch_once net self p 1 tr =
                       (Inr v, tr @ Get (page_url self p) (proxies self) # es))
           \<and> es = (if v = None then [PrintError (page_url self p)] else [])"
    using assms
    by (cases "net (page_url self p) (proxies self) 1") (auto simp: fetch_once_def Let_def)
  then obtain v es
    where f: "\<And>tr. fetch_once net self p 1 tr =
                   (Inr v, tr @ Get (page_url self p) (proxies self) # es)"
      and es: "es = (if v = None then [PrintError (page_url self p)] else [])"
    by blast
  have s: "\<And>tr. scrape_page net self p tr =
                 (Inr v, tr @ Get (page_url self p) (proxies self) # es)"
    unfolding scrape_page_def by (rule retry_returns) (rule f)
  have "fetched net self p = v"
    by (simp add: fetched_def s)
  with s es show ?thesis by simp
qed

lemma requested_append: "requested (xs @ ys) = requested xs @ requested ys"
  by (induction xs rule: requested.induct) simp_all

text \<open>
  What the driver does when no GET raises an exception that is not a
  \<^verbatim>\<open>RequestException\<close>, the extraction of every fetched page returns, and the
  extraction of the empty text gives no record: it requests every page once, in
  order, and returns the records of the pages, in page order.
\<close>

lemma scrape_pages_result:
  assumes "\<forall>p \<in> set pages. net (page_url self p) (proxies self) 1 \<noteq> OtherException"
      and "\<forall>p \<in> set pages. \<forall>html. fetched net self p = Some html
              \<longrightarrow> (\<exists>products. parse_page bs html = Inr products)"
      and "parse_page bs [] = Inr []"
  shows "fst (scrape_pages net bs self pages acc tr)
           = Inr (acc @ concat (map (page_products net bs self) pages))
       \<and> requested (snd (scrape_pages net bs self pages acc tr))
           = requested tr @ map (page_url self) pages"
  using assms
proof (induction pages arbitrary: acc tr)
  case Nil
  then show ?case by simp
next
  case (Cons p pages)
  have sp: "\<And>tr. scrape_page net self p tr =
           (Inr (fetched net self p),
            tr @ Get (page_url self p) (proxies self)
               # (if fetched net self p = None then [PrintError (page_url self p)] else []))"
    using Cons.prems(1) by (intro scrape_page_single) simp
  have ih: "\<And>acc tr. fst (scrape_pages net bs self pages acc tr)
                = Inr (acc @ concat (map (page_products net bs self) pages))
            \<and> requested (snd (scrape_pages net bs self pages acc tr))
                = requested tr @ map (page_url self) pages"
    using Cons.prems by (intro Cons.IH) simp_all
  show ?case
  proof (cases "fetched net self p")
    case None
    then have "page_products net bs self p = []"
      by (simp add: page_products_def)
    with None show ?thesis
      by (simp add: sp ih requested_append)
  next
    case (Some markup)
    then obtain ps where ps: "parse_page bs markup = Inr ps"
      using Cons.prems(2) by auto
    show ?thesis
    proof (cases "markup = []")
      case True
      with Some Cons.prems(3) have "page_products net bs self p = []"
        by (simp add: page_products_def extracted_def)
      with True Some show ?thesis
        by (simp add: sp ih requested_append)
    next
      case False
      from Some ps have "page_products net bs self p = ps"
        by (simp add: page_products_def extracted_def)
      with False Some ps show ?thesis
        by (simp add: sp ih requested_append)
    qed
  qed
qed

text \<open>
  Claim C3. The claim asks for up to three attempts, five seconds apart, on a network
  failure, and for a reported failure after them. The decorator of line 71 repeats a
  call that raises, and the body of \<^verbatim>\<open>scrape_page\<close> catches every
  \<^verbatim>\<open>RequestException\<close> itself and returns None, so the decorator never sees a
  network failure. On a network whose first GET fails and whose second would succeed,
  \<open>scrape_page\<close> makes one GET, does not sleep, and returns None. The three attempts
  and the two delays are made only for an exception of another class, and then the
  call raises \<^verbatim>\<open>RetryError\<close>.
\<close>

theorem scrape_page_gives_up_after_one_attempt:
  "flaky ''https://dentalstall.com/shop/page/1/'' None 2 = Response 200 ''<html></html>''
   \<and> scrape_page flaky (Scraper 1 None) 1 [] =
        (Inr None,
         [Get ''https://dentalstall.com/shop/page/1/'' None,
          PrintError ''https://dentalstall.com/shop/page/1/''])
   \<and> scrape_page broken (Scraper 1 None) 1 [] =
        (Inl RetryError,
         [Get ''https://dentalstall.com/shop/page/1/'' None, Sleep 5,
          Get ''https://dentalstall.com/shop/page/1/'' None, Sleep 5,
          Get ''https://dentalstall.com/shop/page/1/'' None])"
  by code_simp

text \<open>
  Claim C5. The claim asks that the scrape return the records of every page that was
  fetched, whatever pages were not. The driver does skip a page for which
  \<open>scrape_page\<close> returns None (first line below). It does not return the records of
  the fetched pages when the extraction of one of them raises: with page 1 well formed
  and page 2 holding an item without \<^verbatim>\<open>mf-product-content\<close>, a scrape of page 1 gives
  the record of page 1, and a scrape of pages 1 and 2 raises AttributeError and gives
  nothing. And the one fetch failure that does take three attempts, an exception that
  is not a \<^verbatim>\<open>RequestException\<close>, ends the scrape with \<^verbatim>\<open>RetryError\<close>: the record of
  page 1 is lost.
\<close>

theorem scrape_loses_fetched_pages:
  "scrape first_page_only soup_of (Scraper 2 None) [] =
     (Inr [widget],
      [Get ''https://dentalstall.com/shop/page/1/'' None,
       Get ''https://dentalstall.com/shop/page/2/'' None,
       PrintError ''https://dentalstall.com/shop/page/2/''])
   \<and> scrape answering malformed_second (Scraper 1 None) [] =
       (Inr [widget], [Get ''https://dentalstall.com/shop/page/1/'' None])
   \<and> scrape answering malformed_second (Scraper 2 None) [] =
       (Inl AttributeError,
        [Get ''https://dentalstall.com/shop/page/1/'' None,
         Get ''https://dentalstall.com/shop/page/2/'' None])
   \<and> scrape second_page_raises soup_of (Scraper 2 None) [] =
       (Inl RetryError,
        [Get ''https://dentalstall.com/shop/page/1/'' None,
         Get ''https://dentalstall.com/shop/page/2/'' None, Sleep 5,
         Get ''https://dentalstall.com/shop/page/2/'' None, Sleep 5,
         Get ''https://dentalstall.com/shop/page/2/'' None])"
  by code_simp

text \<open>
  Claim C6. The claim asks that the driver visit the pages 1 to N in order and return
  the concatenation of their records, each page's in document order. With three pages
  that all answer, the second holding an item without \<^verbatim>\<open>mf-product-content\<close>, the
  driver requests pages 1 and 2, raises AttributeError, never requests page 3 and
  returns nothing. And within a page, an item of a list nested in another list is
  extracted once for each of the two lists: the page with the items A, B (nested) and
  C, in that order, gives the records A, B, C, B.
\<close>

theorem scrape_stops_at_malformed_page:
  "scrape answering malformed_second (Scraper 3 None) [] =
     (Inl AttributeError,
      [Get ''https://dentalstall.com/shop/page/1/'' None,
       Get ''https://dentalstall.com/shop/page/2/'' None])
   \<and> parse_soup nested_page =
       Inr [product_record ''A'' ''$1'' ''a.jpg'', product_record ''B'' ''$2'' ''b.jpg'',
            product_record ''C'' ''$3'' ''c.jpg'', product_record ''B'' ''$2'' ''b.jpg'']"
  by code_simp

section \<open>The orchestrator\<close>

lemma scrape_world0:
  "scrape first_page_only soup_of (Scraper 2 None) (events world0) =
     (Inr [widget],
      [Get ''https://dentalstall.com/shop/page/1/'' None,
       Get ''https://dentalstall.com/shop/page/2/'' None,
       PrintError ''https://dentalstall.com/shop/page/2/''])"
  by code_simp

lemma load_world0: "load InMemoryStorage (storage_state world0) = Inr []"
  by (simp add: InMemoryStorage_def world0_def)

lemma update_cache_append:
  "update_cache (xs @ ys) db n =
     (case update_cache xs db n of (db', n') \<Rightarrow> update_cache ys db' n')"
  by (induction xs arbitrary: db n) (simp_all add: Let_def)

lemma update_cache_snoc:
  "update_cache (xs @ [p]) db0 n0 =
     (case update_cache xs db0 n0 of
        (db, n) \<Rightarrow>
          if db (cache_key p) = None \<or> db (cache_key p) \<noteq> Some (product_price p)
          then (db(cache_key p \<mapsto> product_price p), n + 1)
          else (db, n))"
  by (simp add: update_cache_append Let_def split: prod.splits)

text \<open>
  The loop as a sequence of states: \<open>dbs ! i\<close> and \<open>ns ! i\<close> are the cache and the
  counter when the loop reaches the record \<open>i\<close>.
\<close>

lemma update_cache_states:
  "\<exists>dbs ns.
     length dbs = length xs + 1 \<and> length ns = length xs + 1
     \<and> dbs ! 0 = db0 \<and> ns ! 0 = n0
     \<and> (\<forall>i < length xs.
           if (dbs ! i) (product_title (xs ! i) @ ''_price'') = None
              \<or> (dbs ! i) (product_title (xs ! i) @ ''_price'') \<noteq> Some (product_price (xs ! i))
           then dbs ! (i + 1) = (dbs ! i)(product_title (xs ! i) @ ''_price'' \<mapsto> product_price (xs ! i))
                \<and> ns ! (i + 1) = ns ! i + 1
           else dbs ! (i + 1) = dbs ! i \<and> ns ! (i + 1) = ns ! i)
     \<and> update_cache xs db0 n0 = (dbs ! length xs, ns ! length xs)"
proof -
  let ?st = "\<lambda>i. update_cache (take i xs) db0 n0"
  let ?dbs = "map (\<lambda>i. fst (?st i)) [0..<length xs + 1]"
  let ?ns = "map (\<lambda>i. snd (?st i)) [0..<length xs + 1]"
  have at: "?dbs ! i = fst (?st i)" "?ns ! i = snd (?st i)" if "i \<le> length xs" for i
    using that by (simp_all add: nth_append less_Suc_eq_le del: upt_Suc)
  have step: "?st (i + 1) =
      (if fst (?st i) (cache_key (xs ! i)) = None
          \<or> fst (?st i) (cache_key (xs ! i)) \<noteq> Some (product_price (xs ! i))
       then ((fst (?st i))(cache_key (xs ! i) \<mapsto> product_price (xs ! i)), snd (?st i) + 1)
       else ?st i)" if "i < length xs" for i
    using that by (simp add: take_Suc_conv_app_nth update_cache_snoc split: prod.splits)
  have "\<forall>i < length xs.
           if (?dbs ! i) (product_title (xs ! i) @ ''_price'') = None
              \<or> (?dbs ! i) (product_title (xs ! i) @ ''_price'') \<noteq> Some (product_price (xs ! i))
           then ?dbs ! (i + 1) = (?dbs ! i)(product_title (xs ! i) @ ''_price'' \<mapsto> product_price (xs ! i))
                \<and> ?ns ! (i + 1) = ?ns ! i + 1
           else ?dbs ! (i + 1) = ?dbs ! i \<and> ?ns ! (i + 1) = ?ns ! i"
  proof (intro allI impI)
    fix i assume i: "i < length xs"
    then have le: "i \<le> length xs" "i + 1 \<le> length xs" by simp_all
    show "if (?dbs ! i) (product_title (xs ! i) @ ''_price'') = None
              \<or> (?dbs ! i) (product_title (xs ! i) @ ''_price'') \<noteq> Some (product_price (xs ! i))
           then ?dbs ! (i + 1) = (?dbs ! i)(product_title (xs ! i) @ ''_price'' \<mapsto> product_price (xs ! i))
                \<and> ?ns ! (i + 1) = ?ns ! i + 1
           else ?dbs ! (i + 1) = ?dbs ! i \<and> ?ns ! (i + 1) = ?ns ! i"
      unfolding at(1) [OF le(1)] at(2) [OF le(1)] at(1) [OF le(2)] at(2) [OF le(2)] step [OF i]
      by (simp add: cache_key_def)
  qed
  moreover have "?dbs ! 0 = db0" "?ns ! 0 = n0"
    using at [of 0] by simp_all
  moreover have "update_cache xs db0 n0 = (?dbs ! length xs, ?ns ! length xs)"
    using at [of "length xs"] by simp
  moreover have "length ?dbs = length xs + 1" "length ?ns = length xs + 1"
    by simp_all
  ultimately show ?thesis by blast
qed

lemma scrape_and_store_cache:
  assumes "scrape net bs (Scraper limit proxy) (events w) = (Inr scraped_data, tr)"
      and "load storage (storage_state w) = Inr existing_data"
  shows "redis (snd (scrape_and_store storage notification net bs limit proxy w))
           = fst (update_cache scraped_data (redis w) 0)"
    and "fst (scrape_and_store storage notification net bs limit proxy w) = Inr r
           \<Longrightarrow> r = [(''message'',
                    summary (length scraped_data) (snd (update_cache scraped_data (redis w) 0)))]"
  using assms
  by (auto simp: scrape_and_store_def Let_def split: prod.splits sum.splits if_splits)

text \<open>
  Claim C1. In a run of the orchestrator whose scrape and \<^verbatim>\<open>storage.load\<close> return,
  let \<open>dbs ! i\<close> and \<open>ns ! i\<close> be the cache and \<^verbatim>\<open>updated_count\<close> when the loop of
  lines 136 to 142 reaches the \<open>i\<close>-th scraped record: at the first record they are
  the Redis database before the run and 0. For every record, with the key its title
  followed by \<^verbatim>\<open>_price\<close>: when the key is absent from the cache or holds a value other
  than the price of the record, the price is written under the key and the counter
  goes up by one; otherwise, the cached price being the price of the record, neither
  the cache nor the counter changes. The database after the run is the cache after
  the last record, and the summary that a completed run returns reports the counter
  after the last record.
\<close>

theorem scrape_and_store_diff:
  assumes "scrape net bs (Scraper limit proxy) (events w) = (Inr scraped_data, tr)"
      and "load storage (storage_state w) = Inr existing_data"
  shows "\<exists>dbs ns.
     length dbs = length scraped_data + 1 \<and> length ns = length scraped_data + 1
     \<and> dbs ! 0 = redis w \<and> ns ! 0 = 0
     \<and> (\<forall>i < length scraped_data.
           if (dbs ! i) (product_title (scraped_data ! i) @ ''_price'') = None
              \<or> (dbs ! i) (product_title (scraped_data ! i) @ ''_price'')
                   \<noteq> Some (product_price (scraped_data ! i))
           then dbs ! (i + 1) = (dbs ! i)(product_title (scraped_data ! i) @ ''_price''
                                          \<mapsto> product_price (scraped_data ! i))
                \<and> ns ! (i + 1) = ns ! i + 1
           else dbs ! (i + 1) = dbs ! i \<and> ns ! (i + 1) = ns ! i)
     \<and> redis (snd (scrape_and_store storage notification net bs limit proxy w))
           = dbs ! length scraped_data
     \<and> (\<forall>r. fst (scrape_and_store storage notification net bs limit proxy w) = Inr r
           \<longrightarrow> r = [(''message'', summary (length scraped_data) (ns ! length scraped_data))])"
proof -
  obtain dbs ns where t:
    "length dbs = length scraped_data + 1" "length ns = length scraped_data + 1"
    "dbs ! 0 = redis w" "ns ! 0 = 0"
    "\<forall>i < length scraped_data.
           if (dbs ! i) (product_title (scraped_data ! i) @ ''_price'') = None
              \<or> (dbs ! i) (product_title (scraped_data ! i) @ ''_price'')
                   \<noteq> Some (product_price (scraped_data ! i))
           then dbs ! (i + 1) = (dbs ! i)(product_title (scraped_data ! i) @ ''_price''
                                          \<mapsto> product_price (scraped_data ! i))
                \<and> ns ! (i + 1) = ns ! i + 1
           else dbs ! (i + 1) = dbs ! i \<and> ns ! (i + 1) = ns ! i"
    "update_cache scraped_data (redis w) 0 = (dbs ! length scraped_data, ns ! length scraped_data)"
    using update_cache_states [of scraped_data "redis w" 0] by blast
  have "redis (snd (scrape_and_store storage notification net bs limit proxy w))
          = dbs ! length scraped_data"
    using scrape_and_store_cache(1) [OF assms] t(6) by simp
  moreover have "\<forall>r. fst (scrape_and_store storage notification net bs limit proxy w) = Inr r
           \<longrightarrow> r = [(''message'', summary (length scraped_data) (ns ! length scraped_data))]"
    using scrape_and_store_cache(2) [OF assms] t(6) by simp
  ultimately show ?thesis using t(1-5) by blast
qed

lemma scrape_world1:
  "scrape first_page_only soup_of (Scraper 2 None) (events world1) =
     (Inr [widget],
      [Get ''https://dentalstall.com/shop/page/1/'' None,
       Get ''https://dentalstall.com/shop/page/2/'' None,
       PrintError ''https://dentalstall.com/shop/page/2/''])"
  by code_simp

lemma load_world1: "load InMemoryStorage (storage_state world1) = Inr []"
  by (simp add: InMemoryStorage_def world1_def)

theorem scrape_and_store_diff_witness:
  "redis (snd (scrape_and_store InMemoryStorage ConsoleNotification first_page_only soup_of
                 2 None world0)) = [''Widget A_price'' \<mapsto> ''$9.99'']
   \<and> fst (scrape_and_store InMemoryStorage ConsoleNotification first_page_only soup_of
            2 None world0) = Inr [(''message'', ''Scraped 1 products. Updated 1 products.'')]
   \<and> redis (snd (scrape_and_store InMemoryStorage ConsoleNotification first_page_only soup_of
                   2 None world1)) = redis world1
   \<and> fst (scrape_and_store InMemoryStorage ConsoleNotification first_page_only soup_of
            2 None world1) = Inr [(''message'', ''Scraped 1 products. Updated 0 products.'')]"
proof -
  have ok0: "\<exists>r. fst (scrape_and_store InMemoryStorage ConsoleNotification first_page_only soup_of
            2 None world0) = Inr r"
    by (simp add: scrape_and_store_def scrape_world0 load_world0 InMemoryStorage_def
          ConsoleNotification_def Let_def split: prod.splits)
  have ok1: "\<exists>r. fst (scrape_and_store InMemoryStorage ConsoleNotification first_page_only soup_of
            2 None world1) = Inr r"
    by (simp add: scrape_and_store_def scrape_world1 load_world1 InMemoryStorage_def
          ConsoleNotification_def Let_def split: prod.splits)
  have s1: "summary (Suc 0) (Suc 0) = ''Scraped 1 products. Updated 1 products.''"
    by code_simp
  have s0: "summary (Suc 0) 0 = ''Scraped 1 products. Updated 0 products.''"
    by code_simp
  have cold:
    "redis (snd (scrape_and_store InMemoryStorage ConsoleNotification first_page_only soup_of
                 2 None world0)) = [''Widget A_price'' \<mapsto> ''$9.99'']
     \<and> fst (scrape_and_store InMemoryStorage ConsoleNotification first_page_only soup_of
            2 None world0) = Inr [(''message'', ''Scraped 1 products. Updated 1 products.'')]"
    using scrape_and_store_diff [OF scrape_world0 load_world0, of ConsoleNotification] ok0
    by (auto simp: world0_def widget_def s1)
  have warm:
    "redis (snd (scrape_and_store InMemoryStorage ConsoleNotification first_page_only soup_of
                   2 None world1)) = redis world1
     \<and> fst (scrape_and_store InMemoryStorage ConsoleNotification first_page_only soup_of
            2 None world1) = Inr [(''message'', ''Scraped 1 products. Updated 0 products.'')]"
    using scrape_and_store_diff [OF scrape_world1 load_world1, of ConsoleNotification] ok1
    by (auto simp: world1_def widget_def s0)
  from cold warm show ?thesis by simp
qed

text \<open>
  Claim C8. In a run that reaches the diff (the scrape and \<^verbatim>\<open>storage.load\<close> return),
  with \<open>updated_count\<close> the counter after the loop: when \<open>updated_count > 0\<close>, what
  happens to the storage is \<^verbatim>\<open>save\<close> applied to the whole list \<open>scraped_data\<close> (its
  new state is the state of the storage after the run, its exception the exception of
  the run); when \<open>updated_count = 0\<close>, the state of the storage is unchanged.
\<close>

theorem save_iff_updated:
  assumes "scrape net bs (Scraper limit proxy) (events w) = (Inr scraped_data, tr)"
      and "load storage (storage_state w) = Inr existing_data"
      and "update_cache scraped_data (redis w) 0 = (db, updated_count)"
  shows "(updated_count > 0 \<longrightarrow>
            (case save storage scraped_data (storage_state w) of
               Inr st \<Rightarrow>
                 storage_state (snd (scrape_and_store storage notification net bs limit proxy w)) = st
             | Inl e \<Rightarrow>
                 fst (scrape_and_store storage notification net bs limit proxy w) = Inl e))
       \<and> (updated_count = 0 \<longrightarrow>
            storage_state (snd (scrape_and_store storage notification net bs limit proxy w))
              = storage_state w)"
  using assms by (auto simp: scrape_and_store_def Let_def split: sum.splits)

lemma update_cache_world0:
  "update_cache [widget] (redis world0) 0 = ([''Widget A_price'' \<mapsto> ''$9.99''], 1)"
  by (simp add: world0_def widget_def cache_key_def)

theorem save_iff_updated_witness:
  "storage_state (snd (scrape_and_store InMemoryStorage ConsoleNotification first_page_only soup_of
                         2 None world0)) = [widget]"
  using save_iff_updated [OF scrape_world0 load_world0 update_cache_world0, of ConsoleNotification]
  by (simp add: InMemoryStorage_def)

text \<open>
  Claim C9. Two storages with the same \<^verbatim>\<open>save\<close> whose \<^verbatim>\<open>load\<close> return two
  datasets, whatever they are, give the same run from the same world: the same returned
  summary and the same final world (cache, storage, notifications, requests).
\<close>

theorem diff_ignores_loaded_data:
  assumes "load storage (storage_state w) = Inr data1"
      and "load storage' (storage_state w) = Inr data2"
      and "save storage' = save storage"
  shows "scrape_and_store storage' notification net bs limit proxy w
           = scrape_and_store storage notification net bs limit proxy w"
  using assms by (simp add: scrape_and_store_def Let_def split: prod.splits sum.splits)

theorem diff_ignores_loaded_data_witness:
  "load InMemoryStorage (storage_state world0) = Inr []
   \<and> load (InMemoryStorage\<lparr>load := \<lambda>s. Inr [widget]\<rparr>) (storage_state world0) = Inr [widget]
   \<and> scrape_and_store (InMemoryStorage\<lparr>load := \<lambda>s. Inr [widget]\<rparr>) ConsoleNotification
        first_page_only soup_of 2 None world0
       = scrape_and_store InMemoryStorage ConsoleNotification first_page_only soup_of 2 None world0"
proof -
  have h2: "load (InMemoryStorage\<lparr>load := \<lambda>s. Inr [widget]\<rparr>) (storage_state world0) = Inr [widget]"
    by simp
  have h3: "save (InMemoryStorage\<lparr>load := \<lambda>s. Inr [widget]\<rparr>) = save InMemoryStorage"
    by simp
  from load_world0 h2 diff_ignores_loaded_data [OF load_world0 h2 h3]
  show ?thesis by (intro conjI)
qed

end
